theory Spec2Isabelle
  imports Complex_Main "HOL-Library.Sublist"
begin

section \<open>The flight simulator's game-state engine\<close>

text \<open>
  A shallow embedding of the class \<open>FlightSimulator\<close>: its fields that carry game state
  become the record \<open>sim\<close>, each method becomes a function from state to state, and
  everything a method reads from outside the object (the clock \<open>Date.now()\<close>, the draws
  of \<open>Math.random()\<close>, the bounding-box radius of the aircraft mesh) is an argument.
  JavaScript numbers are modelled as mathematical reals (the health and the score, which
  only ever hold whole numbers, and clock readings, which are whole milliseconds, as
  integers); rounding of doubles is not modelled. Rendering, the HUD, the camera, the
  speed lines, rain and clouds and the (placeholder) sound manager hold no game state
  and are left out.
\<close>

subsection \<open>Vectors and quaternions (the parts of the 3D library the engine uses)\<close>

record vec3 =
  vx :: real
  vy :: real
  vz :: real

record quat =
  qx :: real
  qy :: real
  qz :: real
  qw :: real

definition Vector3 :: "real \<Rightarrow> real \<Rightarrow> real \<Rightarrow> vec3" where
  "Vector3 a b c = \<lparr>vx = a, vy = b, vz = c\<rparr>"

definition add_vec :: "vec3 \<Rightarrow> vec3 \<Rightarrow> vec3" where
  "add_vec a b = \<lparr>vx = vx a + vx b, vy = vy a + vy b, vz = vz a + vz b\<rparr>"

definition sub_vec :: "vec3 \<Rightarrow> vec3 \<Rightarrow> vec3" where
  "sub_vec a b = \<lparr>vx = vx a - vx b, vy = vy a - vy b, vz = vz a - vz b\<rparr>"

definition multiplyScalar :: "vec3 \<Rightarrow> real \<Rightarrow> vec3" where
  "multiplyScalar a k = \<lparr>vx = vx a * k, vy = vy a * k, vz = vz a * k\<rparr>"

definition lengthSq :: "vec3 \<Rightarrow> real" where
  "lengthSq a = vx a * vx a + vy a * vy a + vz a * vz a"

definition length_vec :: "vec3 \<Rightarrow> real" where
  "length_vec a = sqrt (lengthSq a)"

definition distanceTo :: "vec3 \<Rightarrow> vec3 \<Rightarrow> real" where
  "distanceTo a b = sqrt (lengthSq (sub_vec a b))"

text \<open>\<open>normalize\<close> divides by the length, or by 1 when the length is 0.\<close>

definition normalize :: "vec3 \<Rightarrow> vec3" where
  "normalize a =
     (let l = length_vec a in multiplyScalar a (1 / (if l = 0 then 1 else l)))"

definition setFromAxisAngle :: "vec3 \<Rightarrow> real \<Rightarrow> quat" where
  "setFromAxisAngle axis angle =
     (let halfAngle = angle / 2; sn = sin halfAngle
      in \<lparr>qx = vx axis * sn, qy = vy axis * sn, qz = vz axis * sn, qw = cos halfAngle\<rparr>)"

definition multiplyQuat :: "quat \<Rightarrow> quat \<Rightarrow> quat" where
  "multiplyQuat a b =
     \<lparr>qx = qx a * qw b + qw a * qx b + qy a * qz b - qz a * qy b,
      qy = qy a * qw b + qw a * qy b + qz a * qx b - qx a * qz b,
      qz = qz a * qw b + qw a * qz b + qx a * qy b - qy a * qx b,
      qw = qw a * qw b - qx a * qx b - qy a * qy b - qz a * qz b\<rparr>"

text \<open>Euler angles in the default order XYZ, as \<open>rotation.copy\<close> and \<open>rotation.set\<close> read them.\<close>

definition setFromEuler :: "vec3 \<Rightarrow> quat" where
  "setFromEuler e =
     (let c1 = cos (vx e / 2); c2 = cos (vy e / 2); c3 = cos (vz e / 2);
          s1 = sin (vx e / 2); s2 = sin (vy e / 2); s3 = sin (vz e / 2)
      in \<lparr>qx = s1 * c2 * c3 + c1 * s2 * s3,
          qy = c1 * s2 * c3 - s1 * c2 * s3,
          qz = c1 * c2 * s3 + s1 * s2 * c3,
          qw = c1 * c2 * c3 - s1 * s2 * s3\<rparr>)"

definition applyQuaternion :: "vec3 \<Rightarrow> quat \<Rightarrow> vec3" where
  "applyQuaternion v q =
     (let tx = 2 * (qy q * vz v - qz q * vy v);
          ty = 2 * (qz q * vx v - qx q * vz v);
          tz = 2 * (qx q * vy v - qy q * vx v)
      in \<lparr>vx = vx v + qw q * tx + qy q * tz - qz q * ty,
          vy = vy v + qw q * ty + qz q * tx - qx q * tz,
          vz = vz v + qw q * tz + qx q * ty - qy q * tx\<rparr>)"

text \<open>\<open>rotateX\<close>, \<open>rotateY\<close>, \<open>rotateZ\<close>: multiply the orientation on the right by a
  rotation about the local axis.\<close>

definition rotateX :: "real \<Rightarrow> quat \<Rightarrow> quat" where
  "rotateX angle q = multiplyQuat q (setFromAxisAngle (Vector3 1 0 0) angle)"

definition rotateY :: "real \<Rightarrow> quat \<Rightarrow> quat" where
  "rotateY angle q = multiplyQuat q (setFromAxisAngle (Vector3 0 1 0) angle)"

definition rotateZ :: "real \<Rightarrow> quat \<Rightarrow> quat" where
  "rotateZ angle q = multiplyQuat q (setFromAxisAngle (Vector3 0 0 1) angle)"

subsection \<open>The state\<close>

datatype difficulty = Simple | Hard

record bullet =
  bullet_position :: vec3
  bullet_velocity :: vec3

text \<open>A balloon is a target; \<open>userData.velocity\<close> is set in hard mode only.\<close>

record balloon =
  balloon_position :: vec3
  balloon_velocity :: "vec3 option"

text \<open>
  \<open>position\<close> and \<open>quaternion\<close> are those of \<open>this.airplane\<close>; \<open>obstacles\<close> holds the
  obstacles' positions; \<open>respawns\<close> holds the balloons captured by the pending
  \<open>setTimeout\<close> callbacks of \<open>updateBullets\<close>, oldest first.
\<close>

record sim =
  position :: vec3
  quaternion :: quat
  speed :: real
  pitch :: real
  roll :: real
  yaw :: real
  altitude :: real
  keys :: "string \<Rightarrow> bool"
  bullets :: "bullet list"
  balloons :: "balloon list"
  obstacles :: "vec3 list"
  score :: int
  lastShot :: int
  health :: int
  isGameOver :: bool
  weatherIntensity :: real
  startTime :: int
  elapsedTime :: real
  isShooting :: bool
  difficulty :: difficulty
  respawns :: "balloon list"

definition maxSpeed :: real where "maxSpeed = 3"
definition minSpeed :: real where "minSpeed = 0.5"
definition shotCooldown :: int where "shotCooldown = 50"
definition initialPosition :: vec3 where "initialPosition = Vector3 0 2 50"
definition initialRotation :: vec3 where "initialRotation = Vector3 0 0 0"

text \<open>What one frame reads from outside: two draws of \<open>Math.random()\<close> (used only when
  the weather is bad), the radius computed from the aircraft's bounding box, and the
  clock as read by \<open>updateWeather\<close>, \<open>updateBalloons\<close>, \<open>updateTimer\<close> and \<open>shoot\<close>.\<close>

record frame =
  randomX :: real
  randomY :: real
  collisionRadius :: real
  nowWeather :: int
  nowBalloons :: int
  nowTimer :: int
  nowShoot :: int

subsection \<open>Game over, weather\<close>

definition gameOver :: "sim \<Rightarrow> sim" where
  "gameOver s = s\<lparr>isGameOver := True\<rparr>"

definition setWeatherIntensity :: "real \<Rightarrow> sim \<Rightarrow> sim" where
  "setWeatherIntensity intensity s = s\<lparr>weatherIntensity := max 0 (min 1 intensity)\<rparr>"

definition targetIntensity :: "int \<Rightarrow> real" where
  "targetIntensity now = 0.3 + sin (real_of_int now * 0.0005) * 0.3"

definition updateWeather :: "int \<Rightarrow> sim \<Rightarrow> sim" where
  "updateWeather now s = setWeatherIntensity (targetIntensity now) s"

subsection \<open>Bullets and balloons\<close>

text \<open>\<open>splice(i, 1)\<close>: remove the element at index \<open>i\<close>.\<close>

definition splice1 :: "nat \<Rightarrow> 'a list \<Rightarrow> 'a list" where
  "splice1 i xs = take i xs @ drop (Suc i) xs"

definition advance :: "bullet \<Rightarrow> bullet" where
  "advance b = b\<lparr>bullet_position := add_vec (bullet_position b) (bullet_velocity b)\<rparr>"

text \<open>The inner loop \<open>for (j = balloons.length - 1; j >= 0; j--)\<close>: \<open>findHit n p bs\<close> scans
  the indices \<open>n - 1\<close> down to \<open>0\<close> and returns the first one within the hit radius.\<close>

fun findHit :: "nat \<Rightarrow> vec3 \<Rightarrow> balloon list \<Rightarrow> nat option" where
  "findHit 0 p bs = None"
| "findHit (Suc j) p bs =
     (if distanceTo p (balloon_position (bs ! j)) < 6 then Some j else findHit j p bs)"

text \<open>The body of the outer loop at index \<open>i\<close>.\<close>

definition bulletStep :: "nat \<Rightarrow> sim \<Rightarrow> sim" where
  "bulletStep i s =
     (let b = advance (bullets s ! i);
          s1 = s\<lparr>bullets := (bullets s)[i := b]\<rparr>
      in if length_vec (bullet_position b) > 1000
         then s1\<lparr>bullets := splice1 i (bullets s1)\<rparr>
         else (case findHit (length (balloons s1)) (bullet_position b) (balloons s1) of
                 None \<Rightarrow> s1
               | Some j \<Rightarrow>
                   s1\<lparr>balloons := splice1 j (balloons s1),
                      bullets := splice1 i (bullets s1),
                      score := score s1 + 100,
                      respawns := respawns s1 @ [balloons s1 ! j]\<rparr>))"

text \<open>The outer loop \<open>for (i = bullets.length - 1; i >= 0; i--)\<close>.\<close>

fun bulletLoop :: "nat \<Rightarrow> sim \<Rightarrow> sim" where
  "bulletLoop 0 s = s"
| "bulletLoop (Suc i) s = bulletLoop i (bulletStep i s)"

definition updateBullets :: "sim \<Rightarrow> sim" where
  "updateBullets s = bulletLoop (length (bullets s)) s"

text \<open>The callback scheduled by a hit, run two seconds later with six draws of
  \<open>Math.random()\<close>: a clone of the balloon at a fresh position, with a fresh velocity in
  hard mode.\<close>

definition randomVelocity :: "real \<Rightarrow> real \<Rightarrow> real \<Rightarrow> vec3" where
  "randomVelocity r4 r5 r6 =
     Vector3 ((r4 - 0.5) * 0.5) (sin (r5 * pi * 2) * 0.2) ((r6 - 0.5) * 0.5)"

definition randomPosition :: "real \<Rightarrow> real \<Rightarrow> real \<Rightarrow> vec3" where
  "randomPosition r1 r2 r3 = Vector3 ((r1 - 0.5) * 1000) (50 + r2 * 200) ((r3 - 0.5) * 1000)"

definition respawn :: "real \<Rightarrow> real \<Rightarrow> real \<Rightarrow> real \<Rightarrow> real \<Rightarrow> real \<Rightarrow> sim \<Rightarrow> sim" where
  "respawn r1 r2 r3 r4 r5 r6 s =
     (case respawns s of
        [] \<Rightarrow> s
      | b # rest \<Rightarrow>
          (let n1 = b\<lparr>balloon_position := randomPosition r1 r2 r3\<rparr>;
               n2 = (if difficulty s = Hard
                     then n1\<lparr>balloon_velocity := Some (randomVelocity r4 r5 r6)\<rparr> else n1)
           in s\<lparr>balloons := balloons s @ [n2], respawns := rest\<rparr>))"

text \<open>\<open>updateBalloons\<close>: the body of the \<open>forEach\<close>, then the method.\<close>

definition moveBalloon :: "int \<Rightarrow> balloon \<Rightarrow> balloon" where
  "moveBalloon now b =
     (case balloon_velocity b of
        None \<Rightarrow> b
      | Some v \<Rightarrow>
          (let p = add_vec (balloon_position b) v;
               v1 = (if \<bar>vx p\<bar> > 500 then v\<lparr>vx := vx v * (- 1)\<rparr> else v);
               v2 = (if \<bar>vy p - 125\<bar> > 75 then v1\<lparr>vy := vy v1 * (- 1)\<rparr> else v1);
               v3 = (if \<bar>vz p\<bar> > 500 then v2\<lparr>vz := vz v2 * (- 1)\<rparr> else v2);
               v4 = v3\<lparr>vy := vy v3 + sin (real_of_int now * 0.001) * 0.01\<rparr>
           in \<lparr>balloon_position = p, balloon_velocity = Some v4\<rparr>))"

definition updateBalloons :: "int \<Rightarrow> sim \<Rightarrow> sim" where
  "updateBalloons now s =
     (if difficulty s = Hard then s\<lparr>balloons := map (moveBalloon now) (balloons s)\<rparr> else s)"

definition shoot :: "int \<Rightarrow> sim \<Rightarrow> sim" where
  "shoot now s =
     (if isGameOver s then s
      else if now - lastShot s < shotCooldown then s
      else (let direction = applyQuaternion (Vector3 0 0 (- 1)) (quaternion s);
                b = \<lparr>bullet_position = position s,
                     bullet_velocity = multiplyScalar direction 12\<rparr>
            in s\<lparr>lastShot := now, bullets := bullets s @ [b]\<rparr>))"

subsection \<open>The flight model: \<open>updateFlight\<close>, block by block\<close>

text \<open>Throttle input (keys \<open>w\<close> and \<open>s\<close>).\<close>

definition throttleInput :: "sim \<Rightarrow> sim" where
  "throttleInput s =
     (if keys s ''w'' then s\<lparr>speed := min (speed s + 0.05) maxSpeed\<rparr>
      else if keys s ''s'' then s\<lparr>speed := max (speed s - 0.05) 0\<rparr>
      else s)"

text \<open>The minimum speed constraint.\<close>

definition minSpeedConstraint :: "sim \<Rightarrow> sim" where
  "minSpeedConstraint s =
     (if speed s > 0 \<and> speed s < minSpeed then s\<lparr>speed := minSpeed\<rparr> else s)"

text \<open>The weather's effect on speed.\<close>

definition weatherSpeedEffect :: "sim \<Rightarrow> sim" where
  "weatherSpeedEffect s =
     (if weatherIntensity s > 0.5
      then s\<lparr>speed := speed s * (1 - weatherIntensity s * 0.01)\<rparr> else s)"

text \<open>The three speed blocks in the order of the source.\<close>

definition updateSpeed :: "sim \<Rightarrow> sim" where
  "updateSpeed s = weatherSpeedEffect (minSpeedConstraint (throttleInput s))"

text \<open>Pitch from the up and down arrows.\<close>

definition pitchInput :: "sim \<Rightarrow> sim" where
  "pitchInput s =
     (if keys s ''ArrowUp'' then s\<lparr>pitch := min (pitch s + 0.02) (pi / 3)\<rparr>
      else if keys s ''ArrowDown'' then s\<lparr>pitch := max (pitch s - 0.02) (- pi / 3)\<rparr>
      else s)"

text \<open>Roll and yaw from the left and right arrows; without either the roll decays.\<close>

definition rollInput :: "sim \<Rightarrow> sim" where
  "rollInput s =
     (if keys s ''ArrowLeft''
      then s\<lparr>roll := min (roll s + 0.02) (pi / 3), yaw := yaw s + 0.01\<rparr>
      else if keys s ''ArrowRight''
      then s\<lparr>roll := max (roll s - 0.02) (- pi / 3), yaw := yaw s - 0.01\<rparr>
      else s\<lparr>roll := roll s * 0.95\<rparr>)"

text \<open>The orientation rebuilt from yaw, pitch and roll: \<open>rotation.set(0, 0, 0)\<close>, then
  \<open>rotateY\<close>, \<open>rotateX\<close>, \<open>rotateZ\<close>.\<close>

definition setRotation :: "sim \<Rightarrow> sim" where
  "setRotation s =
     s\<lparr>quaternion :=
         rotateZ (roll s) (rotateX (pitch s) (rotateY (yaw s) (setFromEuler (Vector3 0 0 0))))\<rparr>"

definition updateOrientation :: "sim \<Rightarrow> sim" where
  "updateOrientation s = setRotation (rollInput (pitchInput s))"

text \<open>The move along the heading, with lift and, in bad weather, two random nudges.\<close>

definition heading :: "frame \<Rightarrow> sim \<Rightarrow> vec3" where
  "heading f s =
     (let d0 = applyQuaternion (Vector3 0 0 (- 1)) (quaternion s);
          lift = max 0 (speed s * 0.02);
          d1 = d0\<lparr>vy := vy d0 + lift\<rparr>
      in if weatherIntensity s > 0.5
         then (let dx = d1\<lparr>vx := vx d1 + (randomX f - 0.5) * 0.1 * weatherIntensity s\<rparr>
               in dx\<lparr>vy := vy dx + (randomY f - 0.5) * 0.1 * weatherIntensity s\<rparr>)
         else d1)"

definition translate :: "frame \<Rightarrow> sim \<Rightarrow> sim" where
  "translate f s = s\<lparr>position := add_vec (position s) (multiplyScalar (heading f s) (speed s))\<rparr>"

text \<open>Ground contact (the block that starts with \<open>this.altitude = this.airplane.position.y\<close>).\<close>

definition groundContact :: "sim \<Rightarrow> sim" where
  "groundContact s =
     (let s1 = s\<lparr>altitude := vy (position s)\<rparr>
      in if altitude s1 < 0.5
         then (let s2 = s1\<lparr>position := (position s1)\<lparr>vy := 0.5\<rparr>\<rparr>;
                   s3 = s2\<lparr>speed := max 0 (speed s2 - 0.1)\<rparr>
               in if speed s3 > 1
                  then (let s4 = s3\<lparr>health := health s3 - 10\<rparr>
                        in if health s4 \<le> 0 then gameOver s4 else s4)
                  else s3)
         else s1)"

text \<open>\<open>checkCollisions\<close>: the loop over the obstacles stops at the first one hit.\<close>

fun obstacleLoop :: "real \<Rightarrow> vec3 list \<Rightarrow> sim \<Rightarrow> sim" where
  "obstacleLoop r [] s = s"
| "obstacleLoop r (ob # obs) s =
     (if distanceTo (position s) ob < r + 10
      then (let s1 = s\<lparr>health := health s - 20\<rparr>;
                s2 = (if health s1 \<le> 0 then gameOver s1 else s1);
                pushDirection = multiplyScalar (normalize (sub_vec (position s2) ob)) 20
            in s2\<lparr>position := add_vec (position s2) pushDirection,
                  speed := speed s2 * 0.3\<rparr>)
      else obstacleLoop r obs s)"

definition checkCollisions :: "real \<Rightarrow> sim \<Rightarrow> sim" where
  "checkCollisions r s = (if isGameOver s then s else obstacleLoop r (obstacles s) s)"

definition updateFlight :: "frame \<Rightarrow> sim \<Rightarrow> sim" where
  "updateFlight f s =
     (if isGameOver s then s
      else updateBullets (updateWeather (nowWeather f) (checkCollisions (collisionRadius f)
             (groundContact (translate f (updateOrientation (updateSpeed s)))))))"

subsection \<open>Reset, timer, the frame, input events\<close>

definition resetAirplane :: "int \<Rightarrow> sim \<Rightarrow> sim" where
  "resetAirplane now s =
     s\<lparr>position := initialPosition,
       quaternion := setFromEuler initialRotation,
       speed := 0, pitch := 0, roll := 0, yaw := 0,
       health := 100, isGameOver := False, startTime := now\<rparr>"

definition updateTimer :: "int \<Rightarrow> sim \<Rightarrow> sim" where
  "updateTimer now s =
     (if \<not> isGameOver s then s\<lparr>elapsedTime := real_of_int (now - startTime s) / 1000\<rparr> else s)"

definition animate :: "frame \<Rightarrow> sim \<Rightarrow> sim" where
  "animate f s =
     (let s1 = updateFlight f s;
          s2 = updateBalloons (nowBalloons f) s1;
          s3 = updateTimer (nowTimer f) s2
      in if isShooting s3 then shoot (nowShoot f) s3 else s3)"

text \<open>The record passed by the touch controls to \<open>handleMobileControls\<close>.\<close>

record controls =
  c_pitch :: real
  c_roll :: real
  c_throttle :: bool
  c_brake :: bool
  c_fire :: bool

definition handleMobileControls :: "controls \<Rightarrow> sim \<Rightarrow> sim" where
  "handleMobileControls c s =
     (let s1 = s\<lparr>pitch := c_pitch c * (pi / 6), roll := c_roll c * (pi / 6)\<rparr>;
          s2 = (if c_throttle c then s1\<lparr>speed := min (speed s1 + 0.05) maxSpeed\<rparr>
                else if c_brake c then s1\<lparr>speed := max (speed s1 - 0.05) 0\<rparr>
                else s1)
      in s2\<lparr>isShooting := c_fire c\<rparr>)"

text \<open>The \<open>keydown\<close> and \<open>keyup\<close> listeners (the mute key only reaches the sound manager).\<close>

definition keydown :: "string \<Rightarrow> int \<Rightarrow> sim \<Rightarrow> sim" where
  "keydown k now s =
     (let s1 = s\<lparr>keys := (keys s)(k := True)\<rparr>;
          s2 = (if k = '' '' then s1\<lparr>isShooting := True\<rparr> else s1)
      in if k = ''r'' \<or> k = ''R'' then resetAirplane now s2 else s2)"

definition keyup :: "string \<Rightarrow> sim \<Rightarrow> sim" where
  "keyup k s =
     (let s1 = s\<lparr>keys := (keys s)(k := False)\<rparr>
      in if k = '' '' then s1\<lparr>isShooting := False\<rparr> else s1)"

subsection \<open>The initial state and the reachable states\<close>

text \<open>\<open>createObstacles\<close>: eight obstacles on a circle.\<close>

definition obstaclePosition :: "nat \<Rightarrow> vec3" where
  "obstaclePosition i =
     (let angle = (real i / 8) * pi * 2
      in Vector3 (cos angle * 200) (100 + sin (angle * 2) * 50) (sin angle * 200))"

definition createObstacles :: "vec3 list" where
  "createObstacles = map obstaclePosition [0..<8]"

text \<open>\<open>spawnBalloons\<close>: twenty balloons; \<open>rnd i\<close> gives the six draws used for balloon \<open>i\<close>.\<close>

definition spawnBalloon :: "difficulty \<Rightarrow> real \<times> real \<times> real \<times> real \<times> real \<times> real \<Rightarrow> balloon" where
  "spawnBalloon d r =
     (case r of (r1, r2, r3, r4, r5, r6) \<Rightarrow>
        \<lparr>balloon_position = randomPosition r1 r2 r3,
         balloon_velocity = (if d = Hard then Some (randomVelocity r4 r5 r6) else None)\<rparr>)"

definition spawnBalloons ::
  "difficulty \<Rightarrow> (nat \<Rightarrow> real \<times> real \<times> real \<times> real \<times> real \<times> real) \<Rightarrow> balloon list" where
  "spawnBalloons d rnd = map (\<lambda>i. spawnBalloon d (rnd i)) [0..<20]"

text \<open>The state after the constructor and \<open>init()\<close>, before the first frame.\<close>

definition initialState ::
  "difficulty \<Rightarrow> (nat \<Rightarrow> real \<times> real \<times> real \<times> real \<times> real \<times> real) \<Rightarrow> int \<Rightarrow> sim" where
  "initialState d rnd now =
     \<lparr>position = initialPosition,
      quaternion = setFromEuler initialRotation,
      speed = 0, pitch = 0, roll = 0, yaw = 0, altitude = 0,
      keys = (\<lambda>k. False),
      bullets = [],
      balloons = spawnBalloons d rnd,
      obstacles = createObstacles,
      score = 0, lastShot = 0, health = 100, isGameOver = False,
      weatherIntensity = max 0 (min 1 0.5),
      startTime = now, elapsedTime = 0, isShooting = False,
      difficulty = d, respawns = []\<rparr>"

text \<open>Everything that can happen after the start: a frame, a key event, a touch-control
  update, a tick of the weather timer, a respawn callback.\<close>

inductive reachable :: "sim \<Rightarrow> bool" where
  r_init: "reachable (initialState d rnd now)"
| r_frame: "reachable s \<Longrightarrow> reachable (animate f s)"
| r_keydown: "reachable s \<Longrightarrow> reachable (keydown k now s)"
| r_keyup: "reachable s \<Longrightarrow> reachable (keyup k s)"
| r_mobile: "reachable s \<Longrightarrow> reachable (handleMobileControls c s)"
| r_weather: "reachable s \<Longrightarrow> reachable (updateWeather now s)"
| r_respawn: "reachable s \<Longrightarrow> reachable (respawn r1 r2 r3 r4 r5 r6 s)"

subsection \<open>Predicates used in the statements\<close>

text \<open>\<open>flightFields s t\<close>: \<open>t\<close> agrees with \<open>s\<close> on every field except the bullets, the
  balloons, the score and the pending respawns.\<close>

definition flightFields :: "sim \<Rightarrow> sim \<Rightarrow> bool" where
  "flightFields s t \<longleftrightarrow>
     position t = position s \<and> quaternion t = quaternion s \<and> speed t = speed s \<and>
     pitch t = pitch s \<and> roll t = roll s \<and> yaw t = yaw s \<and> altitude t = altitude s \<and>
     keys t = keys s \<and> obstacles t = obstacles s \<and> lastShot t = lastShot s \<and>
     health t = health s \<and> isGameOver t = isGameOver s \<and>
     weatherIntensity t = weatherIntensity s \<and> startTime t = startTime s \<and>
     elapsedTime t = elapsedTime s \<and> isShooting t = isShooting s \<and>
     difficulty t = difficulty s"

text \<open>The invariant of the engine: the speed lies between 0 and the maximum, the weather
  intensity between 0 and 0.6, the health is a multiple of 10 between -10 and 100, and
  it is positive while the game is not over.\<close>

definition engineInv :: "sim \<Rightarrow> bool" where
  "engineInv s \<longleftrightarrow>
     0 \<le> speed s \<and> speed s \<le> maxSpeed \<and>
     0 \<le> weatherIntensity s \<and> weatherIntensity s \<le> 0.6 \<and>
     10 dvd health s \<and> - 10 \<le> health s \<and> health s \<le> 100 \<and>
     (\<not> isGameOver s \<longrightarrow> 0 < health s)"





text \<open>
  The bullet pass told bullet by bullet rather than index by index: \<open>sweepBullet b st\<close> is
  what the loop body does with the bullet \<open>b\<close> when \<open>st\<close> holds the bullets already kept
  (those after \<open>b\<close> in the list). It is shown below to agree with \<open>bulletLoop\<close>.
\<close>

definition sweepBullet :: "bullet \<Rightarrow> sim \<Rightarrow> sim" where
  "sweepBullet b0 st =
     (let b = advance b0
      in if length_vec (bullet_position b) > 1000 then st
         else (case findHit (length (balloons st)) (bullet_position b) (balloons st) of
                 None \<Rightarrow> st\<lparr>bullets := b # bullets st\<rparr>
               | Some j \<Rightarrow>
                   st\<lparr>balloons := splice1 j (balloons st),
                      score := score st + 100,
                      respawns := respawns st @ [balloons st ! j]\<rparr>))"

definition inRange :: "bullet \<Rightarrow> bool" where
  "inRange b \<longleftrightarrow> \<not> length_vec (bullet_position b) > 1000"

definition nearBalloon :: "balloon list \<Rightarrow> bullet \<Rightarrow> bool" where
  "nearBalloon ts b \<longleftrightarrow>
     (\<exists>t\<in>set ts. distanceTo (bullet_position b) (balloon_position t) < 6)"

subsection \<open>Concrete states and inputs used in the examples\<close>

text \<open>\<open>takeoffState\<close>: the initial state with the throttle key held. \<open>crawlState\<close>: the
  state after a weather tick at clock 2000, the throttle key pressed, and one frame.\<close>

definition rnd0 :: "nat \<Rightarrow> real \<times> real \<times> real \<times> real \<times> real \<times> real" where
  "rnd0 i = (0, 0, 0, 0, 0, 0)"

definition frame0 :: frame where
  "frame0 = \<lparr>randomX = 0.5, randomY = 0.5, collisionRadius = 5,
             nowWeather = 0, nowBalloons = 0, nowTimer = 0, nowShoot = 0\<rparr>"

definition crawlState :: sim where
  "crawlState = animate frame0 (keydown ''w'' 0 (updateWeather 2000 (initialState Simple rnd0 0)))"

definition takeoffState :: sim where
  "takeoffState = keydown ''w'' 0 (initialState Simple rnd0 0)"


text \<open>\<open>landingState\<close>: the aircraft below the floor at speed 1.05.\<close>

definition landingState :: sim where
  "landingState = (initialState Simple rnd0 0)\<lparr>position := Vector3 0 0.3 50, speed := 1.05\<rparr>"

text \<open>\<open>hardOverState\<close>: a game in hard mode that is over, with health 0; every balloon was
  spawned at the centre of the field with velocity \<open>(0.2, 0, 0)\<close>.\<close>

definition rndCentre :: "nat \<Rightarrow> real \<times> real \<times> real \<times> real \<times> real \<times> real" where
  "rndCentre i = (0.5, 0.25, 0.5, 0.9, 0, 0.5)"

definition hardOverState :: sim where
  "hardOverState = (initialState Hard rndCentre 0)\<lparr>health := 0, isGameOver := True\<rparr>"

text \<open>\<open>rangeState\<close>: the aircraft level at \<open>(0, 2, -995)\<close>, about to fire.
  \<open>volleyState\<close>: one bullet about to pass within reach of two balloons at once.
  \<open>mixedState\<close>: one bullet about to leave the range, one well inside, a balloon far away.\<close>

definition rangeState :: sim where
  "rangeState = (initialState Simple rnd0 0)\<lparr>position := Vector3 0 2 (- 995)\<rparr>"

definition volleyState :: sim where
  "volleyState = (initialState Simple rnd0 0)
     \<lparr>bullets := [\<lparr>bullet_position = Vector3 0 2 50, bullet_velocity = Vector3 0 0 (- 12)\<rparr>],
      balloons := [\<lparr>balloon_position = Vector3 0 2 35, balloon_velocity = None\<rparr>,
                   \<lparr>balloon_position = Vector3 0 5 38, balloon_velocity = None\<rparr>]\<rparr>"

definition mixedState :: sim where
  "mixedState = (initialState Simple rnd0 0)
     \<lparr>bullets := [\<lparr>bullet_position = Vector3 0 2 (- 995), bullet_velocity = Vector3 0 0 (- 12)\<rparr>,
                  \<lparr>bullet_position = Vector3 0 2 50, bullet_velocity = Vector3 0 0 (- 12)\<rparr>],
      balloons := [\<lparr>balloon_position = Vector3 0 100 0, balloon_velocity = None\<rparr>]\<rparr>"

section \<open>Properties\<close>

subsection \<open>Comparing lengths without square roots\<close>

lemma length_vec_gt: "0 \<le> c \<Longrightarrow> (length_vec v > c) = (lengthSq v > c * c)"
proof -
  assume c: "0 \<le> c"
  have "c = sqrt (c * c)" using c by simp
  then have "(sqrt (lengthSq v) > c) = (sqrt (lengthSq v) > sqrt (c * c))" by simp
  then show ?thesis unfolding length_vec_def by (simp only: real_sqrt_less_iff)
qed

lemma distanceTo_lt: "0 \<le> c \<Longrightarrow> (distanceTo p q < c) = (lengthSq (sub_vec p q) < c * c)"
proof -
  assume c: "0 \<le> c"
  have "c = sqrt (c * c)" using c by simp
  then have "(sqrt (lengthSq (sub_vec p q)) < c) = (sqrt (lengthSq (sub_vec p q)) < sqrt (c * c))"
    by simp
  then show ?thesis unfolding distanceTo_def by (simp only: real_sqrt_less_iff)
qed

subsection \<open>What the bullet pass leaves alone\<close>

lemma flightFields_refl: "flightFields s s"
  by (simp add: flightFields_def)

lemma flightFields_trans: "flightFields s t \<Longrightarrow> flightFields t u \<Longrightarrow> flightFields s u"
  by (simp add: flightFields_def)

lemma flightFields_bulletStep: "flightFields s (bulletStep i s)"
  by (simp add: flightFields_def bulletStep_def Let_def split: option.splits)

lemma flightFields_bulletLoop: "flightFields s (bulletLoop n s)"
proof (induction n arbitrary: s)
  case 0
  show ?case by (simp add: flightFields_refl)
next
  case (Suc n)
  have "flightFields s (bulletStep n s)" by (rule flightFields_bulletStep)
  moreover have "flightFields (bulletStep n s) (bulletLoop n (bulletStep n s))" by (rule Suc.IH)
  ultimately show ?case by (simp add: flightFields_trans [of s "bulletStep n s"])
qed

lemma flightFields_updateBullets: "flightFields s (updateBullets s)"
  by (simp add: updateBullets_def flightFields_bulletLoop)

subsection \<open>Fields the flight blocks leave alone\<close>

lemma updateSpeed_fields:
  "position (updateSpeed s) = position s" "health (updateSpeed s) = health s"
  "isGameOver (updateSpeed s) = isGameOver s" "weatherIntensity (updateSpeed s) = weatherIntensity s"
  "score (updateSpeed s) = score s" "balloons (updateSpeed s) = balloons s"
  "bullets (updateSpeed s) = bullets s" "obstacles (updateSpeed s) = obstacles s"
  by (simp_all add: updateSpeed_def weatherSpeedEffect_def minSpeedConstraint_def throttleInput_def)

lemma updateOrientation_fields:
  "position (updateOrientation s) = position s" "health (updateOrientation s) = health s"
  "isGameOver (updateOrientation s) = isGameOver s"
  "weatherIntensity (updateOrientation s) = weatherIntensity s"
  "speed (updateOrientation s) = speed s"
  "score (updateOrientation s) = score s" "balloons (updateOrientation s) = balloons s"
  "bullets (updateOrientation s) = bullets s" "obstacles (updateOrientation s) = obstacles s"
  by (simp_all add: updateOrientation_def setRotation_def rollInput_def pitchInput_def)

lemma translate_fields:
  "health (translate f s) = health s"
  "isGameOver (translate f s) = isGameOver s"
  "weatherIntensity (translate f s) = weatherIntensity s"
  "speed (translate f s) = speed s"
  "score (translate f s) = score s" "balloons (translate f s) = balloons s"
  "bullets (translate f s) = bullets s" "obstacles (translate f s) = obstacles s"
  by (simp_all add: translate_def)

subsection \<open>The engine invariant holds in every reachable state\<close>

lemma engineInv_fields:
  "speed t = speed s \<Longrightarrow> weatherIntensity t = weatherIntensity s \<Longrightarrow> health t = health s \<Longrightarrow>
   isGameOver t = isGameOver s \<Longrightarrow> engineInv t = engineInv s"
  by (simp add: engineInv_def)

lemma targetIntensity_bounds: "0 \<le> targetIntensity now \<and> targetIntensity now \<le> 0.6"
proof -
  have "- 1 \<le> sin (real_of_int now * 0.0005)" and "sin (real_of_int now * 0.0005) \<le> 1"
    by (rule sin_ge_minus_one, rule sin_le_one)
  then show ?thesis unfolding targetIntensity_def by linarith
qed

lemma weatherIntensity_updateWeather:
  "weatherIntensity (updateWeather now s) = targetIntensity now"
  using targetIntensity_bounds [of now]
  by (simp add: updateWeather_def setWeatherIntensity_def)

lemma engineInv_updateWeather: "engineInv s \<Longrightarrow> engineInv (updateWeather now s)"
  using targetIntensity_bounds [of now]
  by (simp add: engineInv_def updateWeather_def setWeatherIntensity_def)

lemma engineInv_updateSpeed: "engineInv s \<Longrightarrow> engineInv (updateSpeed s)"
proof -
  assume a: "engineInv s"
  let ?t = "minSpeedConstraint (throttleInput s)"
  have t: "0 \<le> speed ?t \<and> speed ?t \<le> 3"
    using a by (simp add: engineInv_def minSpeedConstraint_def throttleInput_def
        maxSpeed_def minSpeed_def)
  have w: "weatherIntensity ?t = weatherIntensity s" "health ?t = health s"
    "isGameOver ?t = isGameOver s"
    by (simp_all add: minSpeedConstraint_def throttleInput_def)
  have k: "0 \<le> 1 - weatherIntensity s * 0.01" "1 - weatherIntensity s * 0.01 \<le> 1"
    using a by (simp_all add: engineInv_def)
  have "0 \<le> speed ?t * (1 - weatherIntensity s * 0.01)"
    using t k by (simp add: mult_nonneg_nonneg)
  moreover have "speed ?t * (1 - weatherIntensity s * 0.01) \<le> 3"
    using mult_mono [of "speed ?t" 3 "1 - weatherIntensity s * 0.01" 1] t k by simp
  ultimately show ?thesis
    using a t w by (simp add: updateSpeed_def weatherSpeedEffect_def engineInv_def maxSpeed_def)
qed

lemma engineInv_updateOrientation: "engineInv (updateOrientation s) = engineInv s"
  by (rule engineInv_fields) (simp_all add: updateOrientation_fields)

lemma engineInv_translate: "engineInv (translate f s) = engineInv s"
  by (rule engineInv_fields) (simp_all add: translate_fields)

lemma engineInv_groundContact:
  "engineInv s \<Longrightarrow> \<not> isGameOver s \<Longrightarrow> engineInv (groundContact s)"
  unfolding engineInv_def groundContact_def gameOver_def Let_def maxSpeed_def
  by (auto simp: dvd_diff)

lemma engineInv_obstacleLoop:
  "engineInv s \<Longrightarrow> \<not> isGameOver s \<Longrightarrow> engineInv (obstacleLoop r obs s)"
proof (induction obs)
  case Nil
  then show ?case by simp
next
  case (Cons ob obs)
  show ?case
  proof (cases "distanceTo (position s) ob < r + 10")
    case True
    have "10 dvd health s - 20" using Cons.prems by (simp add: engineInv_def)
    then show ?thesis
      using True Cons.prems
      unfolding engineInv_def maxSpeed_def
      by (auto simp: gameOver_def Let_def elim!: dvdE)
  next
    case False
    then show ?thesis using Cons by simp
  qed
qed

lemma engineInv_checkCollisions: "engineInv s \<Longrightarrow> engineInv (checkCollisions r s)"
  by (simp add: checkCollisions_def engineInv_obstacleLoop)

lemma engineInv_updateBullets: "engineInv (updateBullets s) = engineInv s"
  using flightFields_updateBullets [of s]
  by (intro engineInv_fields) (simp_all add: flightFields_def)

lemma engineInv_updateFlight: "engineInv s \<Longrightarrow> engineInv (updateFlight f s)"
proof (cases "isGameOver s")
  case True
  assume "engineInv s"
  with True show ?thesis by (simp add: updateFlight_def)
next
  case False
  assume a: "engineInv s"
  let ?s3 = "translate f (updateOrientation (updateSpeed s))"
  have g: "\<not> isGameOver ?s3"
    using False by (simp add: translate_fields updateOrientation_fields updateSpeed_fields)
  have "engineInv ?s3"
    using a by (simp add: engineInv_translate engineInv_updateOrientation engineInv_updateSpeed)
  then have "engineInv (groundContact ?s3)" using g by (rule engineInv_groundContact)
  then have "engineInv (updateWeather (nowWeather f) (checkCollisions (collisionRadius f)
      (groundContact ?s3)))"
    by (intro engineInv_updateWeather engineInv_checkCollisions)
  then show ?thesis using False by (simp add: updateFlight_def engineInv_updateBullets)
qed

lemma engineInv_animate: "engineInv s \<Longrightarrow> engineInv (animate f s)"
proof -
  assume "engineInv s"
  then have a: "engineInv (updateFlight f s)" by (rule engineInv_updateFlight)
  have b: "engineInv (updateBalloons n t) = engineInv t" for n t
    by (rule engineInv_fields) (simp_all add: updateBalloons_def)
  have c: "engineInv (updateTimer n t) = engineInv t" for n t
    by (rule engineInv_fields) (simp_all add: updateTimer_def)
  have d: "engineInv (shoot n t) = engineInv t" for n t
    by (rule engineInv_fields) (simp_all add: shoot_def Let_def)
  show ?thesis using a by (simp add: animate_def Let_def b c d)
qed

lemma engineInv_resetAirplane: "engineInv s \<Longrightarrow> engineInv (resetAirplane now s)"
  by (simp add: engineInv_def resetAirplane_def maxSpeed_def)

lemma engineInv_keydown: "engineInv s \<Longrightarrow> engineInv (keydown k now s)"
  by (simp add: engineInv_def keydown_def resetAirplane_def maxSpeed_def Let_def)

lemma engineInv_keyup: "engineInv (keyup k s) = engineInv s"
  by (rule engineInv_fields) (simp_all add: keyup_def Let_def)

lemma engineInv_handleMobileControls: "engineInv s \<Longrightarrow> engineInv (handleMobileControls c s)"
  by (simp add: engineInv_def handleMobileControls_def maxSpeed_def Let_def)

lemma engineInv_respawn: "engineInv (respawn r1 r2 r3 r4 r5 r6 s) = engineInv s"
  by (rule engineInv_fields) (simp_all add: respawn_def Let_def split: list.splits)

lemma engineInv_initialState: "engineInv (initialState d rnd now)"
  by (simp add: engineInv_def initialState_def maxSpeed_def)

lemma reachable_engineInv: "reachable s \<Longrightarrow> engineInv s"
proof (induction rule: reachable.induct)
  case (r_init d rnd now)
  show ?case by (rule engineInv_initialState)
next
  case (r_frame s f)
  then show ?case by (simp add: engineInv_animate)
next
  case (r_keydown s k now)
  then show ?case by (simp add: engineInv_keydown)
next
  case (r_keyup s k)
  then show ?case by (simp add: engineInv_keyup)
next
  case (r_mobile s c)
  then show ?case by (simp add: engineInv_handleMobileControls)
next
  case (r_weather s now)
  then show ?case by (simp add: engineInv_updateWeather)
next
  case (r_respawn s r1 r2 r3 r4 r5 r6)
  then show ?case by (simp add: engineInv_respawn)
qed

subsection \<open>Speed\<close>










lemma reachable_crawlState: "reachable crawlState"
  unfolding crawlState_def by (intro reachable.intros)






lemma setFromEuler_zero: "setFromEuler (Vector3 0 0 0) = \<lparr>qx = 0, qy = 0, qz = 0, qw = 1\<rparr>"
  by (simp add: setFromEuler_def Vector3_def)















subsection \<open>Weather and health\<close>


text \<open>
  Claim C10. A weather tick at clock \<open>now\<close> sets the intensity to
  \<open>0.3 + 0.3 * sin (0.0005 * now)\<close>, which lies between 0 and 0.6, so the upper clamp at 1 of
  \<open>setWeatherIntensity\<close> leaves it as it is; the initial intensity is 0.5; a frame of a game
  that is not over ends with the intensity of its own weather update; and in every
  reachable state the intensity lies between 0 and 0.6.
\<close>

theorem weather_intensity_range:
  "weatherIntensity (updateWeather now s) = 0.3 + 0.3 * sin (0.0005 * real_of_int now) \<and>
   0 \<le> weatherIntensity (updateWeather now s) \<and> weatherIntensity (updateWeather now s) \<le> 0.6 \<and>
   min 1 (targetIntensity now) = targetIntensity now \<and>
   weatherIntensity (initialState d rnd t0) = 0.5 \<and>
   (\<not> isGameOver s \<longrightarrow>
      weatherIntensity (animate f s) = 0.3 + 0.3 * sin (0.0005 * real_of_int (nowWeather f))) \<and>
   (reachable r \<longrightarrow> 0 \<le> weatherIntensity r \<and> weatherIntensity r \<le> 0.6)"
proof (intro conjI impI)
  assume "\<not> isGameOver s"
  then have "weatherIntensity (updateFlight f s) = targetIntensity (nowWeather f)"
    using flightFields_updateBullets
      [of "updateWeather (nowWeather f) (checkCollisions (collisionRadius f)
         (groundContact (translate f (updateOrientation (updateSpeed s)))))"]
    by (simp add: updateFlight_def flightFields_def weatherIntensity_updateWeather)
  then show "weatherIntensity (animate f s) =
      0.3 + 0.3 * sin (0.0005 * real_of_int (nowWeather f))"
    by (simp add: animate_def Let_def updateBalloons_def updateTimer_def shoot_def
        targetIntensity_def mult.commute)
next
  show "weatherIntensity (updateWeather now s) = 0.3 + 0.3 * sin (0.0005 * real_of_int now)"
    by (simp add: weatherIntensity_updateWeather targetIntensity_def mult.commute)
  show "0 \<le> weatherIntensity (updateWeather now s)"
    "weatherIntensity (updateWeather now s) \<le> 0.6"
    using targetIntensity_bounds [of now] by (simp_all add: weatherIntensity_updateWeather)
  show "min 1 (targetIntensity now) = targetIntensity now"
    using targetIntensity_bounds [of now] by simp
  show "weatherIntensity (initialState d rnd t0) = 0.5"
    by (simp add: initialState_def)
next
  assume "reachable r"
  then have "engineInv r" by (rule reachable_engineInv)
  then show "0 \<le> weatherIntensity r" "weatherIntensity r \<le> 0.6"
    by (simp_all add: engineInv_def)
qed

theorem weather_intensity_range_witness:
  "weatherIntensity (updateWeather 0 takeoffState) = 0.3 \<and>
   \<not> isGameOver takeoffState \<and> weatherIntensity (animate frame0 takeoffState) = 0.3 \<and>
   reachable crawlState \<and> 0 \<le> weatherIntensity crawlState \<and> weatherIntensity crawlState \<le> 0.6"
proof -
  have "\<not> isGameOver takeoffState" "nowWeather frame0 = 0"
    by (simp_all add: takeoffState_def keydown_def initialState_def frame0_def)
  then show ?thesis
    using weather_intensity_range [of 0 takeoffState Simple rnd0 0 frame0 crawlState]
      reachable_crawlState
    by simp
qed












subsection \<open>Ground contact\<close>

text \<open>
  Claim C5, as amended. On ground contact (the aircraft's height is below 0.5) the height
  is set to 0.5 and the speed decreases by 0.1, floored at 0; the health penalty of 10 is
  applied exactly when the speed after that decrease exceeds 1, that is, when the speed
  before it exceeds 1.1; and the game is over afterwards exactly when it was over before
  or the penalty was applied and left the health at or below 0.
\<close>

theorem ground_contact_effects:
  assumes "vy (position s) < 0.5"
  shows "vy (position (groundContact s)) = 0.5 \<and>
         vx (position (groundContact s)) = vx (position s) \<and>
         vz (position (groundContact s)) = vz (position s) \<and>
         speed (groundContact s) = max 0 (speed s - 0.1) \<and>
         (health (groundContact s) = health s - 10) = (1 < speed (groundContact s)) \<and>
         (health (groundContact s) = health s) = (\<not> 1 < speed (groundContact s)) \<and>
         (1 < speed (groundContact s)) = (1.1 < speed s) \<and>
         isGameOver (groundContact s) =
           (isGameOver s \<or> (1 < speed (groundContact s) \<and> health s - 10 \<le> 0))"
  using assms by (auto simp: groundContact_def gameOver_def Let_def)

lemma landingState_fields:
  "vy (position landingState) = 3 / 10" "speed landingState = 105 / 100"
  "health landingState = 100" "\<not> isGameOver landingState"
  by (simp_all add: landingState_def initialState_def Vector3_def)

theorem ground_contact_effects_witness:
  "vy (position landingState) < 0.5 \<and>
   vy (position (groundContact landingState)) = 0.5 \<and>
   speed (groundContact landingState) = 0.95 \<and>
   health (groundContact landingState) = health landingState \<and>
   \<not> isGameOver (groundContact landingState)"
proof -
  have h: "vy (position landingState) < 0.5" by (simp add: landingState_fields)
  show ?thesis
    using ground_contact_effects [OF h] h by (simp add: landingState_fields)
qed

text \<open>The speed before the penalty exceeds 1, and no health penalty is applied.\<close>

theorem hard_landing_counterexample:
  "vy (position landingState) < 0.5 \<and> 1 < speed landingState \<and>
   health (groundContact landingState) = health landingState"
  by (simp add: groundContact_def gameOver_def Let_def landingState_fields)

subsection \<open>Reset\<close>

text \<open>
  Claim C7. Whatever the state before, after the reset the aircraft's position and
  orientation are those of the initial state, speed, pitch, roll and yaw are 0, the
  health is 100, the game is not over, the clock restarts (the start time is the
  time of the reset, so the timer reads 0 at that time), and the score is the one before.
\<close>

theorem reset_restores_pose:
  "position (resetAirplane now s) = position (initialState d rnd t0) \<and>
   position (resetAirplane now s) = Vector3 0 2 50 \<and>
   quaternion (resetAirplane now s) = quaternion (initialState d rnd t0) \<and>
   quaternion (resetAirplane now s) = \<lparr>qx = 0, qy = 0, qz = 0, qw = 1\<rparr> \<and>
   speed (resetAirplane now s) = 0 \<and> pitch (resetAirplane now s) = 0 \<and>
   roll (resetAirplane now s) = 0 \<and> yaw (resetAirplane now s) = 0 \<and>
   health (resetAirplane now s) = 100 \<and> \<not> isGameOver (resetAirplane now s) \<and>
   startTime (resetAirplane now s) = now \<and>
   elapsedTime (updateTimer now (resetAirplane now s)) = 0 \<and>
   score (resetAirplane now s) = score s \<and>
   keydown ''r'' now s = resetAirplane now (s\<lparr>keys := (keys s)(''r'' := True)\<rparr>)"
  by (simp add: resetAirplane_def initialState_def initialPosition_def initialRotation_def
      setFromEuler_zero updateTimer_def keydown_def)

text \<open>
  Claim C9. The reset changes the position, the orientation, speed, pitch, roll, yaw,
  the health, the game-over flag and the start time, and nothing else: the score, the
  bullets in flight, the balloons, the obstacles and the weather intensity (and every
  other field) are as before. The same holds for the key event that triggers the reset,
  which in addition records the key as held.
\<close>

theorem reset_frame:
  "resetAirplane now s =
     s\<lparr>position := initialPosition,
       quaternion := setFromEuler initialRotation,
       speed := 0, pitch := 0, roll := 0, yaw := 0,
       health := 100, isGameOver := False, startTime := now\<rparr> \<and>
   score (resetAirplane now s) = score s \<and>
   bullets (resetAirplane now s) = bullets s \<and>
   balloons (resetAirplane now s) = balloons s \<and>
   map balloon_position (balloons (resetAirplane now s)) = map balloon_position (balloons s) \<and>
   obstacles (resetAirplane now s) = obstacles s \<and>
   weatherIntensity (resetAirplane now s) = weatherIntensity s \<and>
   respawns (resetAirplane now s) = respawns s \<and>
   altitude (resetAirplane now s) = altitude s \<and>
   keys (resetAirplane now s) = keys s \<and>
   lastShot (resetAirplane now s) = lastShot s \<and>
   elapsedTime (resetAirplane now s) = elapsedTime s \<and>
   isShooting (resetAirplane now s) = isShooting s \<and>
   difficulty (resetAirplane now s) = difficulty s \<and>
   score (keydown ''r'' now s) = score s \<and>
   bullets (keydown ''r'' now s) = bullets s \<and>
   balloons (keydown ''r'' now s) = balloons s \<and>
   obstacles (keydown ''r'' now s) = obstacles s \<and>
   weatherIntensity (keydown ''r'' now s) = weatherIntensity s \<and>
   respawns (keydown ''r'' now s) = respawns s"
  by (simp add: resetAirplane_def keydown_def)

subsection \<open>Throttle from rest\<close>



lemma updateSpeed_more_fields:
  "altitude (updateSpeed s) = altitude s" "lastShot (updateSpeed s) = lastShot s"
  "startTime (updateSpeed s) = startTime s" "elapsedTime (updateSpeed s) = elapsedTime s"
  "isShooting (updateSpeed s) = isShooting s" "difficulty (updateSpeed s) = difficulty s"
  "respawns (updateSpeed s) = respawns s"
  by (simp_all add: updateSpeed_def weatherSpeedEffect_def minSpeedConstraint_def throttleInput_def)













subsection \<open>The frame when the game is over\<close>

lemma animate_gameOver:
  "isGameOver s \<Longrightarrow> animate f s = updateBalloons (nowBalloons f) s"
  by (simp add: animate_def updateFlight_def updateTimer_def shoot_def updateBalloons_def Let_def)

text \<open>What the frame does freeze once the game is over: the aircraft, the score, the bullets,
  and in simple mode the balloons.\<close>

lemma gameOver_frozen:
  assumes "isGameOver s"
  shows "position (animate f s) = position s" and "score (animate f s) = score s"
    and "bullets (animate f s) = bullets s" and "isGameOver (animate f s)"
    and "difficulty s = Simple \<Longrightarrow> animate f s = s"
  using assms by (simp_all add: animate_gameOver updateBalloons_def)

lemma hardOverState_balloon:
  "balloons hardOverState ! 0 =
     \<lparr>balloon_position = Vector3 0 100 0, balloon_velocity = Some (Vector3 (2 / 10) 0 0)\<rparr>"
  by (simp add: hardOverState_def initialState_def spawnBalloons_def spawnBalloon_def
      rndCentre_def randomPosition_def randomVelocity_def Vector3_def)

text \<open>
  Claim C2 at a failing input. The game is over with health 0 in hard mode, and one more
  frame moves the first balloon from \<open>(0, 100, 0)\<close> to \<open>(0.2, 100, 0)\<close>: \<open>animate\<close> calls
  \<open>updateBalloons\<close>, which does not look at the game-over flag.
\<close>

theorem gameOver_balloons_move:
  "isGameOver hardOverState \<and> health hardOverState = 0 \<and> difficulty hardOverState = Hard \<and>
   balloon_position (balloons hardOverState ! 0) = Vector3 0 100 0 \<and>
   balloon_position (balloons (animate frame0 hardOverState) ! 0) = Vector3 0.2 100 0 \<and>
   position (animate frame0 hardOverState) = position hardOverState \<and>
   score (animate frame0 hardOverState) = score hardOverState"
proof -
  have g: "isGameOver hardOverState" "health hardOverState = 0" "difficulty hardOverState = Hard"
    by (simp_all add: hardOverState_def initialState_def)
  have l: "0 < length (balloons hardOverState)"
    by (simp add: hardOverState_def initialState_def spawnBalloons_def)
  have "balloons (animate frame0 hardOverState) ! 0 =
        moveBalloon (nowBalloons frame0) (balloons hardOverState ! 0)"
    using l by (simp add: animate_gameOver [OF g(1)] updateBalloons_def g(3))
  also have "\<dots> = \<lparr>balloon_position = Vector3 (2 / 10) 100 0,
                     balloon_velocity = Some (Vector3 (2 / 10) 0 0)\<rparr>"
    by (simp add: hardOverState_balloon moveBalloon_def frame0_def Vector3_def add_vec_def)
  finally have m: "balloon_position (balloons (animate frame0 hardOverState) ! 0) =
      Vector3 (2 / 10) 100 0" by simp
  show ?thesis
    using g m gameOver_frozen(1,2) [OF g(1), of frame0]
    by (simp add: hardOverState_balloon)
qed

subsection \<open>The bullet pass as a fold\<close>

lemma bulletStep_sweep:
  assumes "n < length (bullets s)"
  shows "take n (bullets (bulletStep n s)) = take n (bullets s)"
    and "(bulletStep n s)\<lparr>bullets := drop n (bullets (bulletStep n s))\<rparr> =
         sweepBullet (bullets s ! n) (s\<lparr>bullets := drop (Suc n) (bullets s)\<rparr>)"
    and "n \<le> length (bullets (bulletStep n s))"
  using assms
  by (auto simp: bulletStep_def sweepBullet_def splice1_def Let_def drop_update_cancel
      upd_conv_take_nth_drop min_def split: option.splits)

lemma bulletLoop_foldr:
  "n \<le> length (bullets s) \<Longrightarrow>
   bulletLoop n s = foldr sweepBullet (take n (bullets s)) (s\<lparr>bullets := drop n (bullets s)\<rparr>)"
proof (induction n arbitrary: s)
  case 0
  show ?case by simp
next
  case (Suc n)
  then have n: "n < length (bullets s)" by simp
  let ?s1 = "bulletStep n s"
  have "bulletLoop (Suc n) s = bulletLoop n ?s1" by simp
  also have "\<dots> = foldr sweepBullet (take n (bullets ?s1)) (?s1\<lparr>bullets := drop n (bullets ?s1)\<rparr>)"
    using bulletStep_sweep(3) [OF n] by (rule Suc.IH)
  also have "\<dots> = foldr sweepBullet (take n (bullets s))
      (sweepBullet (bullets s ! n) (s\<lparr>bullets := drop (Suc n) (bullets s)\<rparr>))"
    by (simp only: bulletStep_sweep(1,2) [OF n])
  also have "\<dots> = foldr sweepBullet (take (Suc n) (bullets s))
      (s\<lparr>bullets := drop (Suc n) (bullets s)\<rparr>)"
    using n by (simp add: take_Suc_conv_app_nth)
  finally show ?case .
qed

lemma updateBullets_foldr:
  "updateBullets s = foldr sweepBullet (bullets s) (s\<lparr>bullets := []\<rparr>)"
  by (simp add: updateBullets_def bulletLoop_foldr)

subsection \<open>One bullet, and a pass over the bullets\<close>

lemma findHit_None_iff:
  "(findHit n p bs = None) = (\<forall>j<n. \<not> distanceTo p (balloon_position (bs ! j)) < 6)"
  by (induction n) (auto simp: less_Suc_eq)

lemma findHit_Some:
  "findHit n p bs = Some j \<Longrightarrow>
     j < n \<and> distanceTo p (balloon_position (bs ! j)) < 6 \<and>
     (\<forall>k. j < k \<and> k < n \<longrightarrow> \<not> distanceTo p (balloon_position (bs ! k)) < 6)"
proof (induction n)
  case 0
  then show ?case by simp
next
  case (Suc n)
  show ?case
  proof (cases "distanceTo p (balloon_position (bs ! n)) < 6")
    case True
    then have "j = n" using Suc.prems by simp
    then show ?thesis using True by simp
  next
    case False
    then have "findHit n p bs = Some j" using Suc.prems by simp
    then have "j < n \<and> distanceTo p (balloon_position (bs ! j)) < 6 \<and>
       (\<forall>k. j < k \<and> k < n \<longrightarrow> \<not> distanceTo p (balloon_position (bs ! k)) < 6)"
      by (rule Suc.IH)
    then show ?thesis using False by (auto simp: less_Suc_eq)
  qed
qed

lemma nearBalloon_nth:
  "nearBalloon ts b =
     (\<exists>j<length ts. distanceTo (bullet_position b) (balloon_position (ts ! j)) < 6)"
  by (fastforce simp: nearBalloon_def in_set_conv_nth)

lemma findHit_None_near:
  "(findHit (length ts) (bullet_position b) ts = None) = (\<not> nearBalloon ts b)"
  by (simp add: findHit_None_iff nearBalloon_nth)

lemma set_splice1: "set (splice1 j xs) \<subseteq> set xs"
  using set_take_subset [of j xs] set_drop_subset [of "Suc j" xs]
  by (auto simp: splice1_def)

lemma length_splice1: "j < length xs \<Longrightarrow> Suc (length (splice1 j xs)) = length xs"
  by (auto simp: splice1_def)

lemma nearBalloon_mono: "set ts \<subseteq> set us \<Longrightarrow> nearBalloon ts b \<Longrightarrow> nearBalloon us b"
  by (auto simp: nearBalloon_def)

text \<open>The three outcomes for one bullet.\<close>

lemma sweepBullet_cases:
  obtains (gone) "\<not> inRange (advance x)" "sweepBullet x st = st"
  | (kept) "inRange (advance x)" "\<not> nearBalloon (balloons st) (advance x)"
      "sweepBullet x st = st\<lparr>bullets := advance x # bullets st\<rparr>"
  | (hit) j where "inRange (advance x)" "nearBalloon (balloons st) (advance x)"
      "j < length (balloons st)"
      "distanceTo (bullet_position (advance x)) (balloon_position (balloons st ! j)) < 6"
      "\<forall>k. j < k \<and> k < length (balloons st) \<longrightarrow>
           \<not> distanceTo (bullet_position (advance x)) (balloon_position (balloons st ! k)) < 6"
      "sweepBullet x st =
         st\<lparr>balloons := splice1 j (balloons st), score := score st + 100,
            respawns := respawns st @ [balloons st ! j]\<rparr>"
proof (cases "inRange (advance x)")
  case False
  then have "sweepBullet x st = st" by (simp add: sweepBullet_def inRange_def)
  with False show ?thesis by (rule gone)
next
  case True
  show ?thesis
  proof (cases "findHit (length (balloons st)) (bullet_position (advance x)) (balloons st)")
    case None
    then have "\<not> nearBalloon (balloons st) (advance x)" by (simp add: findHit_None_near)
    moreover have "sweepBullet x st = st\<lparr>bullets := advance x # bullets st\<rparr>"
      using True None by (simp add: sweepBullet_def inRange_def)
    ultimately show ?thesis using True by (intro kept)
  next
    case (Some j)
    have n: "nearBalloon (balloons st) (advance x)"
      using Some findHit_None_near [of "balloons st" "advance x"] by simp
    have "sweepBullet x st =
         st\<lparr>balloons := splice1 j (balloons st), score := score st + 100,
            respawns := respawns st @ [balloons st ! j]\<rparr>"
      using True Some by (simp add: sweepBullet_def inRange_def)
    then show ?thesis using True n findHit_Some [OF Some] by (intro hit [of j]) simp_all
  qed
qed

text \<open>What a pass over the bullets \<open>xs\<close> does to the bullets, the balloons and the score.\<close>

lemma sweep_balloons:
  "set (balloons (foldr sweepBullet xs st)) \<subseteq> set (balloons st) \<and>
   length (balloons (foldr sweepBullet xs st)) \<le> length (balloons st) \<and>
   score (foldr sweepBullet xs st) - score st =
     100 * (int (length (balloons st)) - int (length (balloons (foldr sweepBullet xs st)))) \<and>
   length (respawns (foldr sweepBullet xs st)) + length (balloons (foldr sweepBullet xs st)) =
     length (respawns st) + length (balloons st)"
proof (induction xs)
  case Nil
  show ?case by simp
next
  case (Cons x xs)
  let ?t = "foldr sweepBullet xs st"
  show ?case
  proof (cases rule: sweepBullet_cases [of x ?t])
    case gone
    then show ?thesis using Cons by simp
  next
    case kept
    then show ?thesis using Cons by simp
  next
    case (hit j)
    have "set (splice1 j (balloons ?t)) \<subseteq> set (balloons st)"
      using set_splice1 [of j "balloons ?t"] Cons by blast
    then show ?thesis
      using Cons hit(6) length_splice1 [OF hit(3)] by (simp add: algebra_simps)
  qed
qed

lemma sweep_bullets:
  "\<exists>K. bullets (foldr sweepBullet xs st) = K @ bullets st \<and>
       subseq K (filter inRange (map advance xs)) \<and>
       subseq (filter (\<lambda>b. inRange b \<and> \<not> nearBalloon (balloons st) b) (map advance xs)) K \<and>
       int (length (filter inRange (map advance xs))) * 100 =
         int (length K) * 100 + (score (foldr sweepBullet xs st) - score st)"
proof (induction xs)
  case Nil
  show ?case by simp
next
  case (Cons x xs)
  let ?t = "foldr sweepBullet xs st"
  obtain K where K: "bullets ?t = K @ bullets st"
    "subseq K (filter inRange (map advance xs))"
    "subseq (filter (\<lambda>b. inRange b \<and> \<not> nearBalloon (balloons st) b) (map advance xs)) K"
    "int (length (filter inRange (map advance xs))) * 100 =
       int (length K) * 100 + (score ?t - score st)"
    using Cons by blast
  have sub: "set (balloons ?t) \<subseteq> set (balloons st)" using sweep_balloons [of xs st] by simp
  show ?case
  proof (cases rule: sweepBullet_cases [of x ?t])
    case gone
    then show ?thesis using K by (intro exI [of _ K]) auto
  next
    case kept
    then show ?thesis using K by (intro exI [of _ "advance x # K"]) auto
  next
    case (hit j)
    have "nearBalloon (balloons st) (advance x)"
      using sub hit(2) by (rule nearBalloon_mono)
    then show ?thesis using K hit(1,6) by (intro exI [of _ K]) auto
  qed
qed

subsection \<open>Bullets and the range\<close>

lemma updateBullets_bullets:
  "subseq (bullets (updateBullets s)) (filter inRange (map advance (bullets s)))"
  "subseq (filter (\<lambda>b. inRange b \<and> \<not> nearBalloon (balloons s) b) (map advance (bullets s)))
     (bullets (updateBullets s))"
  "int (length (filter inRange (map advance (bullets s)))) * 100 =
     int (length (bullets (updateBullets s))) * 100 + (score (updateBullets s) - score s)"
  using sweep_bullets [of "bullets s" "s\<lparr>bullets := []\<rparr>"]
  by (auto simp: updateBullets_foldr)

lemma updateBullets_balloons:
  "set (balloons (updateBullets s)) \<subseteq> set (balloons s)"
  "length (balloons (updateBullets s)) \<le> length (balloons s)"
  "score (updateBullets s) - score s =
     100 * (int (length (balloons s)) - int (length (balloons (updateBullets s))))"
  "length (respawns (updateBullets s)) + length (balloons (updateBullets s)) =
     length (respawns s) + length (balloons s)"
  using sweep_balloons [of "bullets s" "s\<lparr>bullets := []\<rparr>"]
  by (simp_all add: updateBullets_foldr)

lemma sweep_no_balloon_near:
  "\<forall>b\<in>set xs. \<not> nearBalloon (balloons st) (advance b) \<Longrightarrow>
   foldr sweepBullet xs st = st\<lparr>bullets := filter inRange (map advance xs) @ bullets st\<rparr>"
proof (induction xs)
  case Nil
  show ?case by simp
next
  case (Cons x xs)
  let ?t = "foldr sweepBullet xs st"
  have t: "?t = st\<lparr>bullets := filter inRange (map advance xs) @ bullets st\<rparr>"
    using Cons by simp
  have n: "\<not> nearBalloon (balloons ?t) (advance x)" using Cons.prems by (simp add: t)
  show ?case
  proof (cases rule: sweepBullet_cases [of x ?t])
    case gone
    then show ?thesis by (simp add: t)
  next
    case kept
    then show ?thesis by (simp add: t)
  next
    case (hit j)
    then show ?thesis using n by simp
  qed
qed

text \<open>
  Claim C6, as amended. One pass advances every bullet by its velocity; the bullets
  kept are, in order, advanced bullets whose new position is at most 1000 from the
  world's origin (not from where they were fired); every such bullet that is not within
  the hit radius of a balloon is kept; the kept bullets fall short of the bullets in
  range by exactly the number of hits scored; and when no advanced bullet is within the
  hit radius of a balloon, the pass keeps exactly the advanced bullets in range and
  leaves balloons and score alone.
\<close>

theorem bullets_removed_beyond_range:
  "subseq (bullets (updateBullets s)) (filter inRange (map advance (bullets s))) \<and>
   subseq (filter (\<lambda>b. inRange b \<and> \<not> nearBalloon (balloons s) b) (map advance (bullets s)))
     (bullets (updateBullets s)) \<and>
   int (length (filter inRange (map advance (bullets s)))) * 100 =
     int (length (bullets (updateBullets s))) * 100 + (score (updateBullets s) - score s) \<and>
   inRange b = (length_vec (bullet_position b) \<le> 1000) \<and>
   bullet_position (advance b) = add_vec (bullet_position b) (bullet_velocity b) \<and>
   ((\<forall>b\<in>set (bullets s). \<not> nearBalloon (balloons s) (advance b)) \<longrightarrow>
      updateBullets s = s\<lparr>bullets := filter inRange (map advance (bullets s))\<rparr>)"
proof (intro conjI impI)
  assume "\<forall>b\<in>set (bullets s). \<not> nearBalloon (balloons s) (advance b)"
  then show "updateBullets s = s\<lparr>bullets := filter inRange (map advance (bullets s))\<rparr>"
    using sweep_no_balloon_near [of "bullets s" "s\<lparr>bullets := []\<rparr>"]
    by (simp add: updateBullets_foldr)
next
  show "inRange b = (length_vec (bullet_position b) \<le> 1000)"
    by (simp add: inRange_def not_less)
  show "bullet_position (advance b) = add_vec (bullet_position b) (bullet_velocity b)"
    by (simp add: advance_def)
qed (rule updateBullets_bullets)+

lemma mixedState_fields:
  "bullets mixedState =
     [\<lparr>bullet_position = Vector3 0 2 (- 995), bullet_velocity = Vector3 0 0 (- 12)\<rparr>,
      \<lparr>bullet_position = Vector3 0 2 50, bullet_velocity = Vector3 0 0 (- 12)\<rparr>]"
  "balloons mixedState = [\<lparr>balloon_position = Vector3 0 100 0, balloon_velocity = None\<rparr>]"
  by (simp_all add: mixedState_def)

lemma mixedState_advance:
  "map advance (bullets mixedState) =
     [\<lparr>bullet_position = Vector3 0 2 (- 1007), bullet_velocity = Vector3 0 0 (- 12)\<rparr>,
      \<lparr>bullet_position = Vector3 0 2 38, bullet_velocity = Vector3 0 0 (- 12)\<rparr>]"
  by (simp add: mixedState_fields advance_def add_vec_def Vector3_def)

lemma mixedState_inRange:
  "filter inRange (map advance (bullets mixedState)) =
     [\<lparr>bullet_position = Vector3 0 2 38, bullet_velocity = Vector3 0 0 (- 12)\<rparr>]"
  by (simp add: mixedState_advance inRange_def length_vec_gt lengthSq_def Vector3_def)

lemma mixedState_clear:
  "list_all (\<lambda>b. \<not> nearBalloon (balloons mixedState) (advance b)) (bullets mixedState)"
  by (simp add: mixedState_fields nearBalloon_def advance_def add_vec_def Vector3_def
      distanceTo_lt lengthSq_def sub_vec_def)

theorem bullets_removed_beyond_range_witness:
  "list_all (\<lambda>b. \<not> nearBalloon (balloons mixedState) (advance b)) (bullets mixedState) \<and>
   bullets (updateBullets mixedState) =
     [\<lparr>bullet_position = Vector3 0 2 38, bullet_velocity = Vector3 0 0 (- 12)\<rparr>] \<and>
   balloons (updateBullets mixedState) = balloons mixedState \<and>
   score (updateBullets mixedState) = score mixedState"
  using bullets_removed_beyond_range [of mixedState] mixedState_clear
  by (simp add: list_all_iff mixedState_inRange)

lemma rangeState_shoot:
  "bullets (shoot 100 rangeState) =
     [\<lparr>bullet_position = Vector3 0 2 (- 995), bullet_velocity = Vector3 0 0 (- 12)\<rparr>]"
  by (simp add: shoot_def rangeState_def initialState_def shotCooldown_def Let_def
      initialRotation_def setFromEuler_def applyQuaternion_def multiplyScalar_def Vector3_def)

text \<open>A bullet fired at \<open>(0, 2, -995)\<close> has travelled 12 from where it was fired when the
  first pass removes it.\<close>

theorem bullet_range_counterexample:
  "bullets (shoot 100 rangeState) =
     [\<lparr>bullet_position = Vector3 0 2 (- 995), bullet_velocity = Vector3 0 0 (- 12)\<rparr>] \<and>
   distanceTo (Vector3 0 2 (- 995))
     (bullet_position (advance \<lparr>bullet_position = Vector3 0 2 (- 995),
                                bullet_velocity = Vector3 0 0 (- 12)\<rparr>)) < 13 \<and>
   bullets (updateBullets (shoot 100 rangeState)) = []"
proof -
  have "bullets (updateBullets (shoot 100 rangeState)) = []"
    by (simp add: updateBullets_foldr rangeState_shoot sweepBullet_def advance_def add_vec_def
        Vector3_def length_vec_gt lengthSq_def)
  then show ?thesis
    by (simp add: rangeState_shoot advance_def add_vec_def Vector3_def distanceTo_lt
        lengthSq_def sub_vec_def)
qed

subsection \<open>A hit consumes the bullet\<close>

lemma splice1_update: "splice1 i (xs[i := b]) = splice1 i xs"
  by (simp add: splice1_def)

lemma bulletStep_hit:
  assumes "inRange (advance (bullets s ! i))"
    and "findHit (length (balloons s)) (bullet_position (advance (bullets s ! i))) (balloons s)
         = Some j"
  shows "bulletStep i s =
           s\<lparr>bullets := splice1 i (bullets s), balloons := splice1 j (balloons s),
             score := score s + 100, respawns := respawns s @ [balloons s ! j]\<rparr>"
  using assms by (simp add: bulletStep_def inRange_def Let_def splice1_update)

lemma bulletStep_at_most_one:
  "score (bulletStep i s) \<le> score s + 100 \<and>
   length (balloons s) \<le> Suc (length (balloons (bulletStep i s)))"
proof (cases "findHit (length (balloons s)) (bullet_position (advance (bullets s ! i))) (balloons s)")
  case None
  then show ?thesis by (simp add: bulletStep_def Let_def)
next
  case (Some j)
  then have "j < length (balloons s)" using findHit_Some [OF Some] by simp
  then have "Suc (length (splice1 j (balloons s))) = length (balloons s)"
    by (rule length_splice1)
  then show ?thesis using Some by (simp add: bulletStep_def Let_def)
qed

text \<open>
  Claim C8. When the bullet at index \<open>i\<close>, advanced, is in range and within the hit radius
  6 of some balloon, the loop body removes that bullet and exactly one balloon (the one
  with the highest index within the radius, the first the inner loop meets), adds exactly
  100 to the score and schedules exactly one respawn, however many balloons are within
  the radius. In any case the body removes at most one balloon and adds at most 100; and
  over a whole pass the score grows by 100 for each balloon removed, one respawn is
  scheduled for each, and no more balloons are removed than bullets.
\<close>

theorem hit_consumes_projectile:
  "(inRange (advance (bullets s ! i)) \<and> nearBalloon (balloons s) (advance (bullets s ! i)) \<longrightarrow>
      (\<exists>j<length (balloons s).
         distanceTo (bullet_position (advance (bullets s ! i)))
           (balloon_position (balloons s ! j)) < 6 \<and>
         (\<forall>k. j < k \<and> k < length (balloons s) \<longrightarrow>
            \<not> distanceTo (bullet_position (advance (bullets s ! i)))
                (balloon_position (balloons s ! k)) < 6) \<and>
         bulletStep i s =
           s\<lparr>bullets := splice1 i (bullets s), balloons := splice1 j (balloons s),
             score := score s + 100, respawns := respawns s @ [balloons s ! j]\<rparr>)) \<and>
   score (bulletStep i s) \<le> score s + 100 \<and>
   length (balloons s) \<le> Suc (length (balloons (bulletStep i s))) \<and>
   score (updateBullets s) - score s =
     100 * (int (length (balloons s)) - int (length (balloons (updateBullets s)))) \<and>
   length (respawns (updateBullets s)) + length (balloons (updateBullets s)) =
     length (respawns s) + length (balloons s) \<and>
   length (balloons s) + length (bullets (updateBullets s))
     \<le> length (balloons (updateBullets s)) + length (bullets s)"
proof (intro conjI impI)
  assume a: "inRange (advance (bullets s ! i)) \<and> nearBalloon (balloons s) (advance (bullets s ! i))"
  let ?p = "bullet_position (advance (bullets s ! i))"
  have "findHit (length (balloons s)) ?p (balloons s) \<noteq> None"
    using a by (simp add: findHit_None_near)
  then obtain j where j: "findHit (length (balloons s)) ?p (balloons s) = Some j" by auto
  have "bulletStep i s =
           s\<lparr>bullets := splice1 i (bullets s), balloons := splice1 j (balloons s),
             score := score s + 100, respawns := respawns s @ [balloons s ! j]\<rparr>"
    using a j by (intro bulletStep_hit) simp_all
  then show "\<exists>j<length (balloons s).
         distanceTo ?p (balloon_position (balloons s ! j)) < 6 \<and>
         (\<forall>k. j < k \<and> k < length (balloons s) \<longrightarrow>
            \<not> distanceTo ?p (balloon_position (balloons s ! k)) < 6) \<and>
         bulletStep i s =
           s\<lparr>bullets := splice1 i (bullets s), balloons := splice1 j (balloons s),
             score := score s + 100, respawns := respawns s @ [balloons s ! j]\<rparr>"
    using findHit_Some [OF j] by (intro exI [of _ j]) simp
next
  show "score (bulletStep i s) \<le> score s + 100"
    "length (balloons s) \<le> Suc (length (balloons (bulletStep i s)))"
    using bulletStep_at_most_one [of i s] by simp_all
  show "score (updateBullets s) - score s =
     100 * (int (length (balloons s)) - int (length (balloons (updateBullets s))))"
    by (rule updateBullets_balloons)
  show "length (respawns (updateBullets s)) + length (balloons (updateBullets s)) =
     length (respawns s) + length (balloons s)"
    by (rule updateBullets_balloons)
  define F where "F = int (length (filter inRange (map advance (bullets s))))"
  define K where "K = int (length (bullets (updateBullets s)))"
  define B where "B = int (length (balloons s))"
  define B' where "B' = int (length (balloons (updateBullets s)))"
  define L where "L = int (length (bullets s))"
  define D where "D = score (updateBullets s) - score s"
  have "length (filter inRange (map advance (bullets s))) \<le> length (bullets s)"
    using length_filter_le [of inRange "map advance (bullets s)"] by simp
  then have fl: "F \<le> L" unfolding F_def L_def by (simp only: of_nat_le_iff)
  have fk: "100 * F = 100 * K + D"
    using updateBullets_bullets(3) [of s] by (simp add: F_def K_def D_def)
  have db: "D = 100 * (B - B')"
    using updateBullets_balloons(3) [of s] by (simp add: B_def B'_def D_def)
  have "F = K + (B - B')" using fk db by simp
  then have "B + K \<le> B' + L" using fl by linarith
  then have "int (length (balloons s)) + int (length (bullets (updateBullets s)))
     \<le> int (length (balloons (updateBullets s))) + int (length (bullets s))"
    by (simp add: K_def B_def B'_def L_def)
  then have "int (length (balloons s) + length (bullets (updateBullets s)))
     \<le> int (length (balloons (updateBullets s)) + length (bullets s))"
    by simp
  then show "length (balloons s) + length (bullets (updateBullets s))
     \<le> length (balloons (updateBullets s)) + length (bullets s)"
    by (simp only: of_nat_le_iff)
qed

lemma volleyState_fields:
  "bullets volleyState =
     [\<lparr>bullet_position = Vector3 0 2 50, bullet_velocity = Vector3 0 0 (- 12)\<rparr>]"
  "balloons volleyState =
     [\<lparr>balloon_position = Vector3 0 2 35, balloon_velocity = None\<rparr>,
      \<lparr>balloon_position = Vector3 0 5 38, balloon_velocity = None\<rparr>]"
  "score volleyState = 0" "respawns volleyState = []"
  by (simp_all add: volleyState_def initialState_def)

lemma volleyState_advance:
  "advance (bullets volleyState ! 0) =
     \<lparr>bullet_position = Vector3 0 2 38, bullet_velocity = Vector3 0 0 (- 12)\<rparr>"
  by (simp add: volleyState_fields advance_def add_vec_def Vector3_def)

lemma volleyState_both_near:
  "distanceTo (Vector3 0 2 38) (Vector3 0 2 35) < 6"
  "distanceTo (Vector3 0 2 38) (Vector3 0 5 38) < 6"
  by (simp_all add: distanceTo_lt lengthSq_def sub_vec_def Vector3_def)

theorem hit_consumes_projectile_witness:
  "inRange (advance (bullets volleyState ! 0)) \<and>
   distanceTo (bullet_position (advance (bullets volleyState ! 0)))
     (balloon_position (balloons volleyState ! 0)) < 6 \<and>
   distanceTo (bullet_position (advance (bullets volleyState ! 0)))
     (balloon_position (balloons volleyState ! 1)) < 6 \<and>
   score (bulletStep 0 volleyState) = 100 \<and>
   bullets (bulletStep 0 volleyState) = [] \<and>
   balloons (bulletStep 0 volleyState) =
     [\<lparr>balloon_position = Vector3 0 2 35, balloon_velocity = None\<rparr>] \<and>
   respawns (bulletStep 0 volleyState) =
     [\<lparr>balloon_position = Vector3 0 5 38, balloon_velocity = None\<rparr>] \<and>
   score (updateBullets volleyState) = 100 \<and>
   length (balloons (updateBullets volleyState)) = 1"
proof -
  let ?p = "bullet_position (advance (bullets volleyState ! 0))"
  have p: "?p = Vector3 0 2 38" by (simp add: volleyState_advance)
  have r: "inRange (advance (bullets volleyState ! 0))"
    by (simp add: volleyState_advance inRange_def length_vec_gt lengthSq_def Vector3_def)
  have n: "nearBalloon (balloons volleyState) (advance (bullets volleyState ! 0))"
    using volleyState_both_near(1) by (simp add: nearBalloon_def p volleyState_fields(2))
  obtain j where j: "j < length (balloons volleyState)"
    "\<forall>k. j < k \<and> k < length (balloons volleyState) \<longrightarrow>
        \<not> distanceTo ?p (balloon_position (balloons volleyState ! k)) < 6"
    "bulletStep 0 volleyState =
       volleyState\<lparr>bullets := splice1 0 (bullets volleyState),
                   balloons := splice1 j (balloons volleyState),
                   score := score volleyState + 100,
                   respawns := respawns volleyState @ [balloons volleyState ! j]\<rparr>"
    using hit_consumes_projectile [of volleyState 0] r n by auto
  have "\<not> (j < 1 \<and> 1 < length (balloons volleyState))"
    using j(2) volleyState_both_near(2) by (auto simp: p volleyState_fields(2))
  then have j1: "j = 1" using j(1) by (simp add: volleyState_fields)
  have step: "score (bulletStep 0 volleyState) = 100" "bullets (bulletStep 0 volleyState) = []"
    "balloons (bulletStep 0 volleyState) =
       [\<lparr>balloon_position = Vector3 0 2 35, balloon_velocity = None\<rparr>]"
    "respawns (bulletStep 0 volleyState) =
       [\<lparr>balloon_position = Vector3 0 5 38, balloon_velocity = None\<rparr>]"
    by (simp_all add: j(3) j1 splice1_def volleyState_fields)
  have u: "updateBullets volleyState = bulletStep 0 volleyState"
    by (simp add: updateBullets_def volleyState_fields(1))
  show ?thesis
    using r volleyState_both_near step by (simp add: p u volleyState_fields(2))
qed

end
